theory Spec2Isabelle
  imports Complex_Main "HOL-Library.Sublist"
begin

section \<open>The backend response and the JavaScript operators applied to it\<close>

text \<open>
  \<^verbatim>\<open>App.jsx\<close> holds the whole decision logic of the voice gate inside the component
  \<^verbatim>\<open>App\<close>: \<^verbatim>\<open>handleAnalyze\<close> fuses the scores returned by the scoring backend into a
  verdict, a risk label and a list of reasons, and prepends a row to the session history;
  \<^verbatim>\<open>handleDownloadHistory\<close> serialises that history as CSV.

  The file carries three revisions of the component one after the other. The second one
  (the one with the \<^verbatim>\<open>riskScore\<close> block and the comment \<^verbatim>\<open>HARD RULE\<close>) is the one
  modelled here as the program; the first and the third agree with it on everything except
  the risk label, and their risk label is modelled separately as \<open>riskLevel\<close> and
  \<open>riskString_simple\<close>.

  A property of the parsed JSON object \<^verbatim>\<open>data\<close> is either missing (reading it gives
  \<^verbatim>\<open>undefined\<close>), \<^verbatim>\<open>null\<close>, or a value of the type the backend sends for it: a number
  for the scores, a string for the verdict, a boolean for the enrollment flag.

  Numbers are modelled as reals, each literal denoting its decimal value. The code never
  adds or multiplies a score: it only compares scores with constants and thresholds and
  prints them with \<^verbatim>\<open>toFixed\<close>, which ECMAScript defines on the mathematical value of
  the number. \<^verbatim>\<open>NaN\<close> arises in this code only from comparing \<^verbatim>\<open>undefined\<close>, which is
  written out in \<open>js_lt\<close>.
\<close>

datatype 'a js = Undefined | Null | Val 'a

record data =
  prob_real :: "real js"
  prob_fake :: "real js"
  verdict :: "string js"
  iso_score :: "real js"
  similarity :: "real js"
  has_enrollment :: "bool js"

text \<open>\<^verbatim>\<open>x ?? d\<close>: the right operand replaces \<^verbatim>\<open>undefined\<close> and \<^verbatim>\<open>null\<close> only.\<close>

definition nullish :: "'a js \<Rightarrow> 'a \<Rightarrow> 'a" where
  "nullish x d = (case x of Undefined \<Rightarrow> d | Null \<Rightarrow> d | Val v \<Rightarrow> v)"

text \<open>\<^verbatim>\<open>s || ""\<close> on a string property: \<^verbatim>\<open>undefined\<close>, \<^verbatim>\<open>null\<close> and the empty string are
  falsy.\<close>

definition or_empty :: "string js \<Rightarrow> string" where
  "or_empty x = (case x of Undefined \<Rightarrow> [] | Null \<Rightarrow> [] | Val s \<Rightarrow> (if s = [] then [] else s))"

text \<open>\<^verbatim>\<open>x !== null\<close>: strict inequality, which \<^verbatim>\<open>undefined\<close> passes.\<close>

definition not_null :: "'a js \<Rightarrow> bool" where
  "not_null x = (case x of Null \<Rightarrow> False | Undefined \<Rightarrow> True | Val v \<Rightarrow> True)"

text \<open>\<^verbatim>\<open>x < t\<close> with a number on the right: \<^verbatim>\<open>undefined\<close> converts to \<^verbatim>\<open>NaN\<close>, and every
  comparison with \<^verbatim>\<open>NaN\<close> is false; \<^verbatim>\<open>null\<close> converts to \<open>0\<close>.\<close>

definition js_lt :: "real js \<Rightarrow> real \<Rightarrow> bool" where
  "js_lt x t = (case x of Undefined \<Rightarrow> False | Null \<Rightarrow> 0 < t | Val v \<Rightarrow> v < t)"

text \<open>Truthiness of a boolean property.\<close>

definition truthy :: "bool js \<Rightarrow> bool" where
  "truthy x = (case x of Undefined \<Rightarrow> False | Null \<Rightarrow> False | Val b \<Rightarrow> b)"

text \<open>\<^verbatim>\<open>String.prototype.toLowerCase\<close> on the characters of a \<open>string\<close>, which are bytes:
  the ASCII capitals map to their small letters, every other character stays.\<close>

definition lower_char :: "char \<Rightarrow> char" where
  "lower_char c =
     (case map_of (zip ''ABCDEFGHIJKLMNOPQRSTUVWXYZ'' ''abcdefghijklmnopqrstuvwxyz'') c of
        Some l \<Rightarrow> l
      | None \<Rightarrow> c)"

definition toLowerCase :: "string \<Rightarrow> string" where
  "toLowerCase s = map lower_char s"


section \<open>The application state\<close>

text \<open>The row \<^verbatim>\<open>{file, verdict, probReal, probFake, risk}\<close> that \<^verbatim>\<open>handleAnalyze\<close> puts
  into \<^verbatim>\<open>history\<close>.\<close>

record hist_entry =
  h_file :: string
  h_verdict :: string
  h_probReal :: real
  h_probFake :: real
  h_risk :: string

text \<open>The object \<^verbatim>\<open>merged\<close> stored by \<^verbatim>\<open>setResult\<close>: the spread of \<^verbatim>\<open>data\<close> (field
  \<open>backend\<close>) with \<^verbatim>\<open>prob_real\<close> and \<^verbatim>\<open>prob_fake\<close> replaced by the coerced numbers, and
  the frontend's own fields.\<close>

record merged =
  backend :: data
  merged_prob_real :: real
  merged_prob_fake :: real
  verdict_frontend :: string
  risk_level_frontend :: string
  merged_reasons :: "string list"
  file_name :: string
  similarity_threshold_used :: real
  anomaly_threshold_used :: real

text \<open>The \<^verbatim>\<open>useState\<close> cells that the two handlers read or write. The cell \<^verbatim>\<open>file\<close> is
  \<open>the_file\<close> here (\<open>file\<close> is a reserved word); it holds \<^verbatim>\<open>null\<close> or the selected
  \<^verbatim>\<open>File\<close>, of which only the name is used.\<close>

record app_state =
  the_file :: "string option"
  loading :: bool
  similarityThr :: real
  anomalyThr :: real
  result :: "merged option"
  history :: "hist_entry list"

text \<open>The initial values given to \<^verbatim>\<open>useState\<close>.\<close>

definition initial_state :: app_state where
  "initial_state =
     \<lparr>the_file = None, loading = False, similarityThr = 0.8, anomalyThr = 0.0,
      result = None, history = []\<rparr>"


section \<open>The decision stack of \<^verbatim>\<open>handleAnalyze\<close>\<close>

text \<open>Each \<^verbatim>\<open>const\<close> and \<^verbatim>\<open>let\<close> of the body is a definition of the same name, a function
  of the state \<open>st\<close> (for the two thresholds) and of the response \<open>d\<close>.\<close>

definition probReal :: "data \<Rightarrow> real" where
  "probReal d = nullish (prob_real d) 0"

definition probFake :: "data \<Rightarrow> real" where
  "probFake d = nullish (prob_fake d) 0"

definition backendVerdict :: "data \<Rightarrow> string" where
  "backendVerdict d = toLowerCase (or_empty (verdict d))"

definition isoScore :: "data \<Rightarrow> real js" where
  "isoScore d = iso_score d"

text \<open>\<^verbatim>\<open>reasons.push(s)\<close> appends at the end.\<close>

definition push :: "'a list \<Rightarrow> 'a \<Rightarrow> 'a list" where
  "push xs x = xs @ [x]"

definition reasons :: "app_state \<Rightarrow> data \<Rightarrow> string list" where
  "reasons st d =
     (let r0 = [];
          r1 = (if probReal d < 0.6 then push r0 ''Spoof model: low real probability'' else r0);
          r2 = (if not_null (isoScore d) \<and> js_lt (isoScore d) (anomalyThr st)
                then push r1 ''Anomaly detector: unusual embedding'' else r1);
          r3 = (if truthy (has_enrollment d) \<and> not_null (similarity d)
                   \<and> js_lt (similarity d) (similarityThr st)
                then push r2 ''Speaker mismatch: low similarity'' else r2)
      in r3)"

definition baseVerdict :: "data \<Rightarrow> string" where
  "baseVerdict d =
     (if backendVerdict d = ''fake'' \<and> probFake d > 0.6 then ''REJECT'' else ''ACCEPT'')"

definition finalVerdict :: "app_state \<Rightarrow> data \<Rightarrow> string" where
  "finalVerdict st d =
     (if baseVerdict d = ''ACCEPT'' \<and> length (reasons st d) = 0 then ''ACCEPT''
      else if baseVerdict d = ''REJECT'' then ''REJECT''
      else ''SUSPICIOUS'')"

definition riskScore :: "app_state \<Rightarrow> data \<Rightarrow> nat" where
  "riskScore st d =
     (let s0 = 0;
          s1 = (if probReal d \<ge> 0.75 then s0 + 0
                else if probReal d \<ge> 0.5 then s0 + 1
                else s0 + 2);
          s2 = (if not_null (isoScore d) \<and> js_lt (isoScore d) (anomalyThr st)
                then s1 + 1 else s1);
          s3 = (if truthy (has_enrollment d) \<and> not_null (similarity d)
                   \<and> js_lt (similarity d) (similarityThr st)
                then s2 + 1 else s2)
      in s3)"

definition riskString :: "app_state \<Rightarrow> data \<Rightarrow> string" where
  "riskString st d =
     (if probReal d < 0.5 then ''High''
      else if riskScore st d \<le> 1 then ''Low''
      else if riskScore st d = 2 then ''Medium''
      else ''High'')"

text \<open>The risk label of the first and third revision of the component: a plain count of
  the failed checks.\<close>

definition riskLevel :: "app_state \<Rightarrow> data \<Rightarrow> nat" where
  "riskLevel st d =
     (let l0 = 0;
          l1 = (if probReal d < 0.6 then l0 + 1 else l0);
          l2 = (if not_null (isoScore d) \<and> js_lt (isoScore d) (anomalyThr st)
                then l1 + 1 else l1);
          l3 = (if truthy (has_enrollment d) \<and> not_null (similarity d)
                   \<and> js_lt (similarity d) (similarityThr st)
                then l2 + 1 else l2)
      in l3)"

definition riskString_simple :: "app_state \<Rightarrow> data \<Rightarrow> string" where
  "riskString_simple st d =
     (if riskLevel st d = 0 then ''Low''
      else if riskLevel st d = 1 then ''Medium''
      else ''High'')"


section \<open>The three checks\<close>

text \<open>The conditions of the three \<^verbatim>\<open>if\<close> statements that push a reason, named. The code
  writes each of them out twice, once for the reason and once for the risk score.\<close>

definition spoof_check_fails :: "data \<Rightarrow> bool" where
  "spoof_check_fails d = (probReal d < 0.6)"

definition anomaly_check_fails :: "app_state \<Rightarrow> data \<Rightarrow> bool" where
  "anomaly_check_fails st d = (not_null (isoScore d) \<and> js_lt (isoScore d) (anomalyThr st))"

definition mismatch_check_fails :: "app_state \<Rightarrow> data \<Rightarrow> bool" where
  "mismatch_check_fails st d =
     (truthy (has_enrollment d) \<and> not_null (similarity d)
      \<and> js_lt (similarity d) (similarityThr st))"

text \<open>An optional property is absent when the key is missing or its value is
  \<^verbatim>\<open>null\<close>.\<close>

definition absent :: "'a js \<Rightarrow> bool" where
  "absent x = (case x of Undefined \<Rightarrow> True | Null \<Rightarrow> True | Val v \<Rightarrow> False)"

text \<open>The risk score in the words of the specification: 2 below 0.5, else 1 below 0.75,
  else 0, plus one for a failed anomaly check and one for a failed identity check.\<close>

definition riskScore_spec :: "app_state \<Rightarrow> data \<Rightarrow> nat" where
  "riskScore_spec st d =
     (if probReal d < 0.5 then 2 else if probReal d < 0.75 then 1 else 0)
     + (if anomaly_check_fails st d then 1 else 0)
     + (if mismatch_check_fails st d then 1 else 0)"


section \<open>Printing numbers\<close>

definition digit :: "nat \<Rightarrow> char" where
  "digit n = ''0123456789'' ! n"

text \<open>The decimal digits of a natural number, as \<^verbatim>\<open>ToString\<close> gives them for an integer
  below \<open>10\<^sup>2\<^sup>1\<close> and as \<^verbatim>\<open>toFixed\<close> uses them.\<close>

fun dec :: "nat \<Rightarrow> string" where
  "dec n = (if n < 10 then [digit n] else dec (n div 10) @ [digit (n mod 10)])"

declare dec.simps [simp del]

text \<open>\<^verbatim>\<open>Number::toString\<close> in the only case \<^verbatim>\<open>toFixed\<close> delegates to it, a value of at
  least \<open>10\<^sup>2\<^sup>1\<close>: the significant digits \<open>s\<close> (\<open>k\<close> of them), then \<^verbatim>\<open>e+\<close> and the
  exponent \<open>n - 1\<close>, with a point after the first digit when \<open>k > 1\<close>. A number
  of that size is an integer. The digits here are those of the exact value; the engine prints
  the shortest digits that denote the same double, which are the same ones when the value
  has at most 15 significant digits.\<close>

definition toString_exp :: "real \<Rightarrow> string" where
  "toString_exp x =
     (let ds = dec (nat \<lfloor>x\<rfloor>);
          n = length ds;
          s = rev (dropWhile (\<lambda>c. c = CHR ''0'') (rev ds));
          k = length s
      in if k = 1 then s @ ''e+'' @ dec (n - 1)
         else take 1 s @ ''.'' @ drop 1 s @ ''e+'' @ dec (n - 1))"

text \<open>\<^verbatim>\<open>Number.prototype.toFixed(f)\<close> on a finite number, step by step: the sign is split
  off; from \<open>10\<^sup>2\<^sup>1\<close> on the result is that of \<^verbatim>\<open>ToString\<close>; otherwise \<open>n\<close> is the integer
  nearest to \<open>x * 10\<^sup>f\<close> (the larger one of two), its digits are padded with zeros on the
  left to \<open>f + 1\<close> characters, and the point goes before the last \<open>f\<close>.\<close>

definition toFixed :: "real \<Rightarrow> nat \<Rightarrow> string" where
  "toFixed x0 f =
     (let s = (if x0 < 0 then ''-'' else []);
          x = (if x0 < 0 then - x0 else x0)
      in if x \<ge> 10 ^ 21 then s @ toString_exp x
         else
           let n = nat \<lfloor>x * 10 ^ f + 1 / 2\<rfloor>;
               m = dec n
           in if f \<noteq> 0 then
                let k = length m;
                    m = (if k \<le> f then replicate (f + 1 - k) CHR ''0'' @ m else m);
                    k = (if k \<le> f then f + 1 else k);
                    a = take (k - f) m;
                    b = drop (k - f) m
                in s @ a @ ''.'' @ b
              else s @ m)"

definition is_digit :: "char \<Rightarrow> bool" where
  "is_digit c = (c \<in> set ''0123456789'')"

text \<open>A string written with exactly \<open>f\<close> decimal places: an optional minus sign, at least
  one digit, a point, \<open>f\<close> digits.\<close>

definition fixed_point :: "nat \<Rightarrow> string \<Rightarrow> bool" where
  "fixed_point f s =
     (let u = (case s of [] \<Rightarrow> s | c # t \<Rightarrow> if c = CHR ''-'' then t else s);
          k = length u - (f + 1);
          a = take k u;
          b = drop k u
      in f + 1 < length u \<and> list_all is_digit a \<and> take 1 b = ''.''
         \<and> list_all is_digit (drop 1 b))"

text \<open>The number a digit string denotes, for reading a printed index back.\<close>

definition digit_val :: "char \<Rightarrow> nat" where
  "digit_val c =
     (case map_of (zip ''0123456789'' [0, 1, 2, 3, 4, 5, 6, 7, 8, 9]) c of
        Some v \<Rightarrow> v
      | None \<Rightarrow> 0)"

definition undec :: "string \<Rightarrow> nat" where
  "undec s = foldl (\<lambda>a c. 10 * a + digit_val c) 0 s"


section \<open>\<^verbatim>\<open>handleAnalyze\<close> and \<^verbatim>\<open>handleDownloadHistory\<close> as state transformers\<close>

text \<open>What a handler does besides updating the state: \<^verbatim>\<open>alert(msg)\<close>, or the download of
  a file with a name and a content.\<close>

datatype effect = Alert string | Download string string

text \<open>What \<^verbatim>\<open>fetch\<close> and \<^verbatim>\<open>res.json()\<close> can give: an exception with a message, a response
  whose \<^verbatim>\<open>ok\<close> is false with its status, or the parsed object.\<close>

datatype response = Threw string | Http nat | Json data

definition handleAnalyze :: "app_state \<Rightarrow> response \<Rightarrow> app_state \<times> effect list" where
  "handleAnalyze st resp =
     (case the_file st of
        None \<Rightarrow> (st, [Alert ''Select or load an audio file first.''])
      | Some name \<Rightarrow>
          (case resp of
             Threw msg \<Rightarrow>
               (st\<lparr>loading := False\<rparr>, [Alert (''Error calling backend: '' @ msg)])
           | Http status \<Rightarrow>
               (st\<lparr>loading := False\<rparr>,
                [Alert (''Error calling backend: '' @ ''HTTP '' @ dec status)])
           | Json d \<Rightarrow>
               (let m = \<lparr>backend = d,
                         merged_prob_real = probReal d,
                         merged_prob_fake = probFake d,
                         verdict_frontend = finalVerdict st d,
                         risk_level_frontend = riskString st d,
                         merged_reasons = reasons st d,
                         file_name = name,
                         similarity_threshold_used = similarityThr st,
                         anomaly_threshold_used = anomalyThr st\<rparr>;
                    h = \<lparr>h_file = name,
                         h_verdict = finalVerdict st d,
                         h_probReal = probReal d,
                         h_probFake = probFake d,
                         h_risk = riskString st d\<rparr>
                in (st\<lparr>loading := False, result := Some m, history := h # history st\<rparr>, []))))"

text \<open>\<^verbatim>\<open>Array.prototype.join\<close> on strings.\<close>

fun join :: "string \<Rightarrow> string list \<Rightarrow> string" where
  "join sep [] = []"
| "join sep [x] = x"
| "join sep (x # y # ys) = x @ sep @ join sep (y # ys)"

definition header :: "string list" where
  "header = [''index'', ''file'', ''verdict'', ''prob_real'', ''prob_fake'', ''risk'']"

text \<open>\<^verbatim>\<open>history.map((h, idx) => [...])\<close>: the callback gets every element with its index.
  The first cell is a number, which \<^verbatim>\<open>join\<close> prints in decimal; \<open>idx\<close> is below the
  length, so the subtraction never truncates.\<close>

definition rows :: "hist_entry list \<Rightarrow> string list list" where
  "rows hs =
     map (\<lambda>(h, idx).
            [dec (length hs - idx), h_file h, h_verdict h,
             toFixed (h_probReal h) 3, toFixed (h_probFake h) 3, h_risk h])
         (zip hs [0 ..< length hs])"

definition newline :: string where
  "newline = [CHR 0x0A]"

definition csv :: "hist_entry list \<Rightarrow> string" where
  "csv hs = join newline (join '','' header # map (\<lambda>r. join '','' r) (rows hs))"

definition handleDownloadHistory :: "app_state \<Rightarrow> app_state \<times> effect list" where
  "handleDownloadHistory st =
     (if length (history st) = 0 then (st, [Alert ''No history to download.''])
      else (st, [Download ''voice_auth_session_history.csv'' (csv (history st))]))"


section \<open>Facts about the decision stack\<close>

lemmas js_ops = nullish_def or_empty_def not_null_def js_lt_def truthy_def absent_def

lemmas decision_defs = probReal_def probFake_def isoScore_def push_def reasons_def
  baseVerdict_def finalVerdict_def riskScore_def riskString_def
  spoof_check_fails_def anomaly_check_fails_def mismatch_check_fails_def

lemmas verdict_defs = backendVerdict_def toLowerCase_def lower_char_def

text \<open>The three pushes, read as one list expression.\<close>

lemma reasons_by_checks:
  "reasons st d =
     (if spoof_check_fails d then [''Spoof model: low real probability''] else [])
     @ (if anomaly_check_fails st d then [''Anomaly detector: unusual embedding''] else [])
     @ (if mismatch_check_fails st d then [''Speaker mismatch: low similarity''] else [])"
  by (simp add: reasons_def push_def Let_def spoof_check_fails_def anomaly_check_fails_def
      mismatch_check_fails_def)

lemma reasons_empty_iff:
  "reasons st d = [] \<longleftrightarrow>
     \<not> spoof_check_fails d \<and> \<not> anomaly_check_fails st d \<and> \<not> mismatch_check_fails st d"
  by (simp add: reasons_by_checks)

text \<open>What the two optional checks test, case by case on the property: the anomaly check
  fails exactly on a present score below the threshold, the identity check exactly on a
  true enrollment flag with a present similarity below the threshold.\<close>

lemma anomaly_check_fails_iff:
  "anomaly_check_fails st d \<longleftrightarrow> (\<exists>v. iso_score d = Val v \<and> v < anomalyThr st)"
  by (cases "iso_score d") (simp_all add: anomaly_check_fails_def isoScore_def js_ops)

lemma mismatch_check_fails_iff:
  "mismatch_check_fails st d \<longleftrightarrow>
     has_enrollment d = Val True \<and> (\<exists>v. similarity d = Val v \<and> v < similarityThr st)"
  by (cases "similarity d"; cases "has_enrollment d")
    (simp_all add: mismatch_check_fails_def js_ops)

lemma baseVerdict_cases: "baseVerdict d = ''ACCEPT'' \<or> baseVerdict d = ''REJECT''"
  by (simp add: baseVerdict_def)

lemma baseVerdict_reject_iff:
  "baseVerdict d = ''REJECT'' \<longleftrightarrow> backendVerdict d = ''fake'' \<and> probFake d > 0.6"
  by (simp add: baseVerdict_def)

lemma finalVerdict_reject_iff:
  "finalVerdict st d = ''REJECT'' \<longleftrightarrow> baseVerdict d = ''REJECT''"
  by (simp add: finalVerdict_def baseVerdict_def)

lemma riskScore_eq_spec: "riskScore st d = riskScore_spec st d"
  by (simp add: riskScore_def riskScore_spec_def Let_def anomaly_check_fails_def
      mismatch_check_fails_def not_less)

text \<open>\<^verbatim>\<open>setHistory((prev) => [entry, ...prev])\<close>: a successful analysis puts its row in
  front, so \<open>history\<close> is newest first.\<close>

lemma handleAnalyze_prepends:
  "the_file st = Some name \<Longrightarrow>
   history (fst (handleAnalyze st (Json d))) =
     \<lparr>h_file = name, h_verdict = finalVerdict st d, h_probReal = probReal d,
      h_probFake = probFake d, h_risk = riskString st d\<rparr> # history st"
  by (simp add: handleAnalyze_def Let_def)

text \<open>The count-based label of the first and third revision is a different function: a
  sample with \<open>prob_real = 0.3\<close> and no other failed check is \<open>Medium\<close> there.\<close>

lemma simple_risk_label_differs:
  "riskString_simple initial_state
     \<lparr>prob_real = Val 0.3, prob_fake = Val 0.7, verdict = Val ''fake'',
      iso_score = Null, similarity = Null, has_enrollment = Val False\<rparr> = ''Medium''"
  by (simp add: riskString_simple_def riskLevel_def probReal_def isoScore_def js_ops
      initial_state_def)


section \<open>Facts about printing\<close>

lemma below_ten:
  "(d::nat) < 10 \<Longrightarrow>
   d = 0 \<or> d = 1 \<or> d = 2 \<or> d = 3 \<or> d = 4 \<or> d = 5 \<or> d = 6 \<or> d = 7 \<or> d = 8 \<or> d = 9"
  by arith

lemma digit_is_digit: "d < 10 \<Longrightarrow> is_digit (digit d)"
  using below_ten [of d] by (auto simp add: digit_def is_digit_def)

lemma digit_val_digit: "d < 10 \<Longrightarrow> digit_val (digit d) = d"
  using below_ten [of d] by (auto simp add: digit_def digit_val_def)

lemma dec_digits: "list_all is_digit (dec n)"
proof (induction n rule: dec.induct)
  case (1 n)
  show ?case
  proof (cases "n < 10")
    case True
    then show ?thesis by (subst dec.simps) (simp add: digit_is_digit)
  next
    case False
    with 1 show ?thesis by (subst dec.simps) (simp add: digit_is_digit)
  qed
qed

lemma dec_nonempty: "dec n \<noteq> []"
  by (subst dec.simps) simp

lemma undec_snoc: "undec (s @ [c]) = 10 * undec s + digit_val c"
  by (simp add: undec_def)

text \<open>Reading the printed digits back gives the number.\<close>

lemma undec_dec: "undec (dec n) = n"
proof (induction n rule: dec.induct)
  case (1 n)
  show ?case
  proof (cases "n < 10")
    case True
    then show ?thesis by (subst dec.simps) (simp add: undec_def digit_val_digit)
  next
    case False
    with 1 show ?thesis by (subst dec.simps) (simp add: undec_snoc digit_val_digit)
  qed
qed

lemma dec_examples: "dec (Suc 0) = ''1''" "dec (Suc (Suc 0)) = ''2''"
  by (subst dec.simps, simp add: digit_def)+

lemma is_digit_not_minus: "is_digit c \<Longrightarrow> c \<noteq> CHR ''-''"
  by (auto simp add: is_digit_def)

text \<open>\<open>fixed_point f\<close> holds exactly of the strings made of an optional minus sign, a
  nonempty run of digits, a point and \<open>f\<close> digits.\<close>

lemma fixed_point_intro:
  assumes "a \<noteq> []" and "list_all is_digit a" and "list_all is_digit b" and "length b = f"
    and "sg = [] \<or> sg = ''-''"
  shows "fixed_point f (sg @ a @ ''.'' @ b)"
proof -
  obtain c t where a: "a = c # t" using assms(1) by (cases a) auto
  with assms(2) have c: "c \<noteq> CHR ''-''" by (simp add: is_digit_not_minus)
  have u: "(case sg @ a @ ''.'' @ b of [] \<Rightarrow> sg @ a @ ''.'' @ b
            | c # t \<Rightarrow> if c = CHR ''-'' then t else sg @ a @ ''.'' @ b) = a @ ''.'' @ b"
    using assms(5) a c by auto
  show ?thesis
    unfolding fixed_point_def u Let_def
    using assms(1-4) by (cases a) auto
qed

lemma fixed_point_elim:
  assumes "fixed_point f s"
  shows "\<exists>sg a b. s = sg @ a @ ''.'' @ b \<and> (sg = [] \<or> sg = ''-'') \<and> a \<noteq> []
           \<and> list_all is_digit a \<and> list_all is_digit b \<and> length b = f"
proof -
  define u where "u = (case s of [] \<Rightarrow> s | c # t \<Rightarrow> if c = CHR ''-'' then t else s)"
  define k where "k = length u - (f + 1)"
  define a where "a = take k u"
  define v where "v = drop k u"
  define b where "b = drop 1 v"
  from assms have len: "f + 1 < length u" and da: "list_all is_digit a"
    and p: "take 1 v = ''.''" and db: "list_all is_digit b"
    by (simp_all add: fixed_point_def Let_def u_def k_def a_def v_def b_def)
  have s: "\<exists>sg. s = sg @ u \<and> (sg = [] \<or> sg = ''-'')"
    by (cases s) (auto simp add: u_def)
  have "v = take 1 v @ b" unfolding b_def by (rule append_take_drop_id [symmetric])
  with p have v: "v = ''.'' @ b" by simp
  have "u = a @ v" unfolding a_def v_def by (rule append_take_drop_id [symmetric])
  with v have u: "u = a @ ''.'' @ b" by simp
  have "a \<noteq> []" using len by (auto simp add: a_def k_def)
  moreover have "length b = f" using len by (simp add: b_def v_def k_def)
  ultimately show ?thesis using s u da db by blast
qed

text \<open>Below \<open>10\<^sup>2\<^sup>1\<close> in magnitude, \<^verbatim>\<open>toFixed(f)\<close> with \<open>f > 0\<close> prints exactly \<open>f\<close>
  decimal places.\<close>

lemma toFixed_fixed_point:
  assumes "\<bar>x\<bar> < 10 ^ 21" and "0 < f"
  shows "fixed_point f (toFixed x f)"
proof -
  define s where "s = (if x < 0 then ''-'' else [])"
  define m where "m = dec (nat \<lfloor>\<bar>x\<bar> * 10 ^ f + 1 / 2\<rfloor>)"
  define m' where
    "m' = (if length m \<le> f then replicate (f + 1 - length m) CHR ''0'' @ m else m)"
  define k where "k = (if length m \<le> f then f + 1 else length m)"
  have abs: "(if x < 0 then - x else x) = \<bar>x\<bar>" by simp
  have tf: "toFixed x f = s @ take (k - f) m' @ ''.'' @ drop (k - f) m'"
    using assms unfolding toFixed_def abs Let_def s_def m_def m'_def k_def by simp
  have len: "length m' = k" by (simp add: m'_def k_def)
  have kf: "f < k" by (simp add: k_def)
  have dm: "list_all is_digit m" by (simp add: m_def dec_digits)
  have z: "is_digit CHR ''0''" by (simp add: is_digit_def)
  have dm': "list_all is_digit m'"
    using dm z by (simp add: m'_def list_all_iff)
  have "take (k - f) m' \<noteq> []" using len kf by auto
  moreover have "list_all is_digit (take (k - f) m')"
    using dm' by (auto simp add: list_all_iff dest: in_set_takeD)
  moreover have "list_all is_digit (drop (k - f) m')"
    using dm' by (auto simp add: list_all_iff dest: in_set_dropD)
  moreover have "length (drop (k - f) m') = f" using len kf by simp
  moreover have "s = [] \<or> s = ''-''" by (simp add: s_def)
  ultimately show ?thesis unfolding tf by (rule fixed_point_intro)
qed

lemma toFixed_large: "toFixed 1000000000000000000000 3 = ''1e+21''"
  by (simp add: toFixed_def toString_exp_def Let_def dec.simps digit_def)

lemma toFixed_zero: "toFixed 0 3 = ''0.000''"
  by code_simp

lemma toFixed_eighth: "toFixed (1 / 8) 3 = ''0.125''"
  by code_simp

lemma toFixed_seven_eighths: "toFixed (7 / 8) 3 = ''0.875''"
  by code_simp

lemma toFixed_three_quarters: "toFixed (3 / 4) 3 = ''0.750''"
  by code_simp

lemma toFixed_quarter: "toFixed (1 / 4) 3 = ''0.250''"
  by code_simp

lemmas toFixed_examples = toFixed_large toFixed_zero toFixed_eighth toFixed_seven_eighths
  toFixed_three_quarters toFixed_quarter


section \<open>Facts about the export\<close>

lemma length_rows: "length (rows hs) = length hs"
  by (simp add: rows_def)

lemma rows_nth:
  "k < length hs \<Longrightarrow>
   rows hs ! k =
     [dec (length hs - k), h_file (hs ! k), h_verdict (hs ! k),
      toFixed (h_probReal (hs ! k)) 3, toFixed (h_probFake (hs ! k)) 3, h_risk (hs ! k)]"
  by (simp add: rows_def)

lemma header_line: "join '','' header = ''index,file,verdict,prob_real,prob_fake,risk''"
  by (simp add: header_def)

lemma join_Cons: "ys \<noteq> [] \<Longrightarrow> join sep (x # ys) = x @ sep @ join sep ys"
  by (cases ys) simp_all

lemma join_row:
  "join '','' [a, b, c, d, e, f] = a @ '','' @ b @ '','' @ c @ '','' @ d @ '','' @ e @ '','' @ f"
  by simp

lemma csv_shape:
  "hs \<noteq> [] \<Longrightarrow>
   csv hs = ''index,file,verdict,prob_real,prob_fake,risk'' @ newline
            @ join newline (map (\<lambda>r. join '','' r) (rows hs))"
  by (simp add: csv_def header_line join_Cons rows_def)


section \<open>The verdict\<close>

text \<open>
  C1, as the code has it. A fake probability above 0.6 forces \<open>REJECT\<close> only together with
  a backend verdict that reads \<^verbatim>\<open>fake\<close> after lower-casing: the guard of \<open>baseVerdict\<close>
  tests both. With any other backend verdict the final verdict is never \<open>REJECT\<close>, however
  high the fake probability. Nothing else in the response and neither threshold matters.
\<close>

theorem reject_needs_backend_fake:
  "(backendVerdict d = ''fake'' \<and> probFake d > 0.6 \<longrightarrow> finalVerdict st d = ''REJECT'')
   \<and> (backendVerdict d \<noteq> ''fake'' \<longrightarrow> finalVerdict st d \<noteq> ''REJECT'')"
  by (simp add: finalVerdict_reject_iff baseVerdict_reject_iff)

theorem reject_needs_backend_fake_witness:
  "backendVerdict \<lparr>prob_real = Val 0.3, prob_fake = Val 0.7, verdict = Val ''FAKE'',
      iso_score = Null, similarity = Null, has_enrollment = Val False\<rparr> = ''fake''
   \<and> probFake \<lparr>prob_real = Val 0.3, prob_fake = Val 0.7, verdict = Val ''FAKE'',
      iso_score = Null, similarity = Null, has_enrollment = Val False\<rparr> > 0.6
   \<and> finalVerdict initial_state
       \<lparr>prob_real = Val 0.3, prob_fake = Val 0.7, verdict = Val ''FAKE'',
        iso_score = Null, similarity = Null, has_enrollment = Val False\<rparr> = ''REJECT''
   \<and> backendVerdict \<lparr>prob_real = Val 0.3, prob_fake = Val 0.7, verdict = Undefined,
      iso_score = Null, similarity = Null, has_enrollment = Val False\<rparr> \<noteq> ''fake''
   \<and> finalVerdict initial_state
       \<lparr>prob_real = Val 0.3, prob_fake = Val 0.7, verdict = Undefined,
        iso_score = Null, similarity = Null, has_enrollment = Val False\<rparr> \<noteq> ''REJECT''"
  using reject_needs_backend_fake [of
      "\<lparr>prob_real = Val 0.3, prob_fake = Val 0.7, verdict = Val ''FAKE'',
        iso_score = Null, similarity = Null, has_enrollment = Val False\<rparr>" initial_state]
    reject_needs_backend_fake [of
      "\<lparr>prob_real = Val 0.3, prob_fake = Val 0.7, verdict = Undefined,
        iso_score = Null, similarity = Null, has_enrollment = Val False\<rparr>" initial_state]
  by (simp add: verdict_defs probFake_def js_ops)

text \<open>
  C1 as stated fails: the response \<^verbatim>\<open>{prob_real: 0.3, prob_fake: 0.7, verdict: "real"}\<close>
  has a fake probability above 0.6, and its verdict under the default thresholds is
  \<open>SUSPICIOUS\<close>, not \<open>REJECT\<close>.
\<close>

theorem high_fake_probability_not_rejected:
  "probFake \<lparr>prob_real = Val 0.3, prob_fake = Val 0.7, verdict = Val ''real'',
      iso_score = Null, similarity = Null, has_enrollment = Val False\<rparr> > 0.6
   \<and> finalVerdict initial_state
       \<lparr>prob_real = Val 0.3, prob_fake = Val 0.7, verdict = Val ''real'',
        iso_score = Null, similarity = Null, has_enrollment = Val False\<rparr> = ''SUSPICIOUS''
   \<and> ''SUSPICIOUS'' \<noteq> ''REJECT''"
  by (simp add: decision_defs js_ops verdict_defs initial_state_def)

text \<open>
  C5. The final verdict is one of the three distinct strings \<open>ACCEPT\<close>, \<open>REJECT\<close>,
  \<open>SUSPICIOUS\<close>. It is \<open>ACCEPT\<close> exactly when the base verdict is \<open>ACCEPT\<close> and none of the
  three checks failed, \<open>REJECT\<close> exactly when the base verdict is \<open>REJECT\<close>, and
  \<open>SUSPICIOUS\<close> exactly when the base verdict is \<open>ACCEPT\<close> and some check failed.
\<close>

theorem verdict_exclusive:
  "finalVerdict st d \<in> {''ACCEPT'', ''REJECT'', ''SUSPICIOUS''}
   \<and> distinct [''ACCEPT'', ''REJECT'', ''SUSPICIOUS'']
   \<and> (finalVerdict st d = ''ACCEPT'' \<longleftrightarrow>
        baseVerdict d = ''ACCEPT'' \<and> \<not> spoof_check_fails d \<and> \<not> anomaly_check_fails st d
        \<and> \<not> mismatch_check_fails st d)
   \<and> (finalVerdict st d = ''REJECT'' \<longleftrightarrow> baseVerdict d = ''REJECT'')
   \<and> (finalVerdict st d = ''SUSPICIOUS'' \<longleftrightarrow>
        baseVerdict d = ''ACCEPT''
        \<and> (spoof_check_fails d \<or> anomaly_check_fails st d \<or> mismatch_check_fails st d))"
  using baseVerdict_cases [of d]
  by (auto simp add: finalVerdict_def reasons_empty_iff)

theorem verdict_exclusive_witness:
  "finalVerdict initial_state
     \<lparr>prob_real = Val 0.9, prob_fake = Val 0.1, verdict = Val ''real'',
      iso_score = Val 0.5, similarity = Null, has_enrollment = Val False\<rparr> = ''ACCEPT''
   \<and> baseVerdict
     \<lparr>prob_real = Val 0.9, prob_fake = Val 0.1, verdict = Val ''real'',
      iso_score = Val 0.5, similarity = Null, has_enrollment = Val False\<rparr> = ''ACCEPT''"
  using verdict_exclusive [of initial_state
     "\<lparr>prob_real = Val 0.9, prob_fake = Val 0.1, verdict = Val ''real'',
      iso_score = Val 0.5, similarity = Null, has_enrollment = Val False\<rparr>"]
  by (simp add: decision_defs js_ops initial_state_def verdict_defs)


section \<open>The reasons\<close>

text \<open>
  C4, as the code has it. The reasons come in the order in which the code pushes them:
  the spoof-probability reason first, then the anomaly reason, then the identity-mismatch
  reason. The list is a subsequence of these three in that order, and each is in it
  exactly when its check failed.
\<close>

theorem reasons_order:
  "subseq (reasons st d)
     [''Spoof model: low real probability'', ''Anomaly detector: unusual embedding'',
      ''Speaker mismatch: low similarity'']
   \<and> (''Spoof model: low real probability'' \<in> set (reasons st d) \<longleftrightarrow> spoof_check_fails d)
   \<and> (''Anomaly detector: unusual embedding'' \<in> set (reasons st d)
        \<longleftrightarrow> anomaly_check_fails st d)
   \<and> (''Speaker mismatch: low similarity'' \<in> set (reasons st d)
        \<longleftrightarrow> mismatch_check_fails st d)"
  by (simp add: reasons_by_checks)

theorem reasons_order_witness:
  "reasons initial_state
     \<lparr>prob_real = Val 0.9, prob_fake = Val 0.1, verdict = Val ''real'',
      iso_score = Val (- 0.2), similarity = Val 0.7, has_enrollment = Val True\<rparr>
   = [''Anomaly detector: unusual embedding'', ''Speaker mismatch: low similarity'']
   \<and> subseq [''Anomaly detector: unusual embedding'', ''Speaker mismatch: low similarity'']
        [''Spoof model: low real probability'', ''Anomaly detector: unusual embedding'',
         ''Speaker mismatch: low similarity'']"
  using reasons_order [of initial_state
     "\<lparr>prob_real = Val 0.9, prob_fake = Val 0.1, verdict = Val ''real'',
      iso_score = Val (- 0.2), similarity = Val 0.7, has_enrollment = Val True\<rparr>"]
  by (simp add: decision_defs js_ops initial_state_def)

text \<open>
  C4 as stated fails: with all three checks failing (similarity 0.7 below 0.8, anomaly
  score -0.2 below 0.0, real probability 0.55 below 0.6) the list starts with the spoof
  reason and ends with the mismatch reason, the reverse of the order (1,2,3) of the checks.
\<close>

theorem reasons_not_in_check_order:
  "reasons \<lparr>the_file = Some ''a.wav'', loading = False, similarityThr = 0.8, anomalyThr = 0.0,
            result = None, history = []\<rparr>
     \<lparr>prob_real = Val 0.55, prob_fake = Val 0.45, verdict = Val ''real'',
      iso_score = Val (- 0.2), similarity = Val 0.7, has_enrollment = Val True\<rparr>
   = [''Spoof model: low real probability'', ''Anomaly detector: unusual embedding'',
      ''Speaker mismatch: low similarity'']
   \<and> [''Spoof model: low real probability'', ''Anomaly detector: unusual embedding'',
      ''Speaker mismatch: low similarity'']
     \<noteq> [''Speaker mismatch: low similarity'', ''Anomaly detector: unusual embedding'',
        ''Spoof model: low real probability'']"
  by (simp add: decision_defs js_ops)

text \<open>
  C6. The reasons list has as many entries as checks failed, and it is empty exactly when
  none failed.
\<close>

theorem reasons_count:
  "length (reasons st d) =
     (if spoof_check_fails d then 1 else 0) + (if anomaly_check_fails st d then 1 else 0)
     + (if mismatch_check_fails st d then 1 else 0)
   \<and> (reasons st d = [] \<longleftrightarrow>
        \<not> spoof_check_fails d \<and> \<not> anomaly_check_fails st d \<and> \<not> mismatch_check_fails st d)"
  by (simp add: reasons_by_checks)

theorem reasons_count_witness:
  "length (reasons initial_state
     \<lparr>prob_real = Val 0.55, prob_fake = Val 0.45, verdict = Val ''real'',
      iso_score = Val (- 0.2), similarity = Val 0.7, has_enrollment = Val True\<rparr>) = 3"
  using reasons_count [of initial_state
     "\<lparr>prob_real = Val 0.55, prob_fake = Val 0.45, verdict = Val ''real'',
      iso_score = Val (- 0.2), similarity = Val 0.7, has_enrollment = Val True\<rparr>"]
  by (simp add: spoof_check_fails_def anomaly_check_fails_def mismatch_check_fails_def
      probReal_def isoScore_def js_ops initial_state_def)

text \<open>
  C7. An absent anomaly score (key missing or \<^verbatim>\<open>null\<close>) never fails the anomaly check: no
  anomaly reason, and the risk score is the probability part plus the mismatch penalty
  only. A falsy enrollment flag or an absent similarity never fails the identity check.
  This holds for every threshold, positive ones included, so the absent value is not
  compared as zero.
\<close>

theorem absent_scores_never_fail:
  "(absent (iso_score d) \<longrightarrow>
      \<not> anomaly_check_fails st d
      \<and> ''Anomaly detector: unusual embedding'' \<notin> set (reasons st d)
      \<and> riskScore st d =
          (if probReal d < 0.5 then 2 else if probReal d < 0.75 then 1 else 0)
          + (if mismatch_check_fails st d then 1 else 0))
   \<and> (\<not> truthy (has_enrollment d) \<or> absent (similarity d) \<longrightarrow>
      \<not> mismatch_check_fails st d
      \<and> ''Speaker mismatch: low similarity'' \<notin> set (reasons st d)
      \<and> riskScore st d =
          (if probReal d < 0.5 then 2 else if probReal d < 0.75 then 1 else 0)
          + (if anomaly_check_fails st d then 1 else 0))"
proof -
  have a: "\<not> anomaly_check_fails st d" if "absent (iso_score d)"
    using that
    by (cases "iso_score d") (simp_all add: anomaly_check_fails_def isoScore_def js_ops)
  have m: "\<not> mismatch_check_fails st d"
    if "\<not> truthy (has_enrollment d) \<or> absent (similarity d)"
    using that by (cases "similarity d") (auto simp add: mismatch_check_fails_def js_ops)
  show ?thesis
    using a m by (auto simp add: riskScore_eq_spec riskScore_spec_def reasons_by_checks)
qed

theorem absent_scores_never_fail_witness:
  "absent (iso_score \<lparr>prob_real = Val 0.9, prob_fake = Val 0.1, verdict = Val ''real'',
      iso_score = Null, similarity = Undefined, has_enrollment = Val True\<rparr>)
   \<and> absent (similarity \<lparr>prob_real = Val 0.9, prob_fake = Val 0.1, verdict = Val ''real'',
      iso_score = Null, similarity = Undefined, has_enrollment = Val True\<rparr>)
   \<and> 0 < anomalyThr (initial_state\<lparr>anomalyThr := 1\<rparr>)
   \<and> 0 < similarityThr (initial_state\<lparr>anomalyThr := 1\<rparr>)
   \<and> reasons (initial_state\<lparr>anomalyThr := 1\<rparr>)
       \<lparr>prob_real = Val 0.9, prob_fake = Val 0.1, verdict = Val ''real'',
        iso_score = Null, similarity = Undefined, has_enrollment = Val True\<rparr> = []
   \<and> riskScore (initial_state\<lparr>anomalyThr := 1\<rparr>)
       \<lparr>prob_real = Val 0.9, prob_fake = Val 0.1, verdict = Val ''real'',
        iso_score = Null, similarity = Undefined, has_enrollment = Val True\<rparr> = 0"
  using absent_scores_never_fail [of
      "\<lparr>prob_real = Val 0.9, prob_fake = Val 0.1, verdict = Val ''real'',
        iso_score = Null, similarity = Undefined, has_enrollment = Val True\<rparr>"
      "initial_state\<lparr>anomalyThr := 1\<rparr>"]
  by (simp add: decision_defs js_ops initial_state_def)


section \<open>The risk label\<close>

text \<open>
  C2. The risk score of the code is the score in the words of the specification (2 below
  0.5, else 1 below 0.75, else 0; plus one for a failed anomaly check; plus one for a
  failed identity check), and where the hard rule does not apply the label is \<open>Low\<close> up to
  1, \<open>Medium\<close> at 2 and \<open>High\<close> from 3 on.
\<close>

theorem risk_tier_formula:
  "riskScore st d = riskScore_spec st d
   \<and> (\<not> probReal d < 0.5 \<longrightarrow>
        riskString st d =
          (if riskScore_spec st d \<le> 1 then ''Low''
           else if riskScore_spec st d = 2 then ''Medium''
           else ''High''))"
  by (simp add: riskScore_eq_spec riskString_def)

theorem risk_tier_formula_witness:
  "\<not> probReal \<lparr>prob_real = Val 0.55, prob_fake = Val 0.45, verdict = Val ''real'',
      iso_score = Val (- 0.2), similarity = Val 0.9, has_enrollment = Val True\<rparr> < 0.5
   \<and> riskScore initial_state
       \<lparr>prob_real = Val 0.55, prob_fake = Val 0.45, verdict = Val ''real'',
        iso_score = Val (- 0.2), similarity = Val 0.9, has_enrollment = Val True\<rparr> = 2
   \<and> riskString initial_state
       \<lparr>prob_real = Val 0.55, prob_fake = Val 0.45, verdict = Val ''real'',
        iso_score = Val (- 0.2), similarity = Val 0.9, has_enrollment = Val True\<rparr> = ''Medium''"
  using risk_tier_formula [of initial_state
      "\<lparr>prob_real = Val 0.55, prob_fake = Val 0.45, verdict = Val ''real'',
        iso_score = Val (- 0.2), similarity = Val 0.9, has_enrollment = Val True\<rparr>"]
  by (simp add: riskScore_spec_def probReal_def anomaly_check_fails_def
      mismatch_check_fails_def isoScore_def js_ops initial_state_def)

text \<open>
  C3. A real probability below 0.5 gives the label \<open>High\<close>, whatever the other scores and
  the thresholds are.
\<close>

theorem high_risk_override:
  "probReal d < 0.5 \<Longrightarrow> riskString st d = ''High''"
  by (simp add: riskString_def)

theorem high_risk_override_witness:
  "probReal \<lparr>prob_real = Val 0.3, prob_fake = Val 0.7, verdict = Val ''fake'',
      iso_score = Val 1, similarity = Val 0.95, has_enrollment = Val True\<rparr> < 0.5
   \<and> riskString initial_state
       \<lparr>prob_real = Val 0.3, prob_fake = Val 0.7, verdict = Val ''fake'',
        iso_score = Val 1, similarity = Val 0.95, has_enrollment = Val True\<rparr> = ''High''"
  using high_risk_override [of
      "\<lparr>prob_real = Val 0.3, prob_fake = Val 0.7, verdict = Val ''fake'',
        iso_score = Val 1, similarity = Val 0.95, has_enrollment = Val True\<rparr>" initial_state]
  by (simp add: probReal_def js_ops)

text \<open>
  C10. A missing or \<^verbatim>\<open>null\<close> \<^verbatim>\<open>prob_real\<close> is read as 0, and so is \<^verbatim>\<open>prob_fake\<close>. With
  both absent the spoof check fails, the base verdict is \<open>ACCEPT\<close>, the final verdict is
  \<open>SUSPICIOUS\<close> and the label is \<open>High\<close>; with a file selected \<^verbatim>\<open>handleAnalyze\<close> raises no
  alert and stores that verdict and label.
\<close>

theorem missing_probabilities_coerced:
  "(absent (prob_real d) \<longrightarrow> probReal d = 0)
   \<and> (absent (prob_fake d) \<longrightarrow> probFake d = 0)
   \<and> (absent (prob_real d) \<and> absent (prob_fake d) \<longrightarrow>
        spoof_check_fails d \<and> baseVerdict d = ''ACCEPT''
        \<and> finalVerdict st d = ''SUSPICIOUS'' \<and> riskString st d = ''High''
        \<and> (the_file st = Some name \<longrightarrow>
             snd (handleAnalyze st (Json d)) = []
             \<and> map_option verdict_frontend (result (fst (handleAnalyze st (Json d))))
                 = Some ''SUSPICIOUS''
             \<and> map_option risk_level_frontend (result (fst (handleAnalyze st (Json d))))
                 = Some ''High''))"
proof -
  have r: "probReal d = 0" if "absent (prob_real d)"
    using that by (cases "prob_real d") (simp_all add: probReal_def js_ops)
  have f: "probFake d = 0" if "absent (prob_fake d)"
    using that by (cases "prob_fake d") (simp_all add: probFake_def js_ops)
  have s: "spoof_check_fails d" if "probReal d = 0"
    using that by (simp add: spoof_check_fails_def)
  have b: "baseVerdict d = ''ACCEPT''" if "probFake d = 0"
    using that by (simp add: baseVerdict_def)
  have v: "finalVerdict st d = ''SUSPICIOUS''" if "probReal d = 0" and "probFake d = 0"
    using s [OF that(1)] b [OF that(2)] by (simp add: finalVerdict_def reasons_empty_iff)
  have h: "riskString st d = ''High''" if "probReal d = 0"
    using that by (simp add: riskString_def)
  show ?thesis
    using r f s b v h by (auto simp add: handleAnalyze_def Let_def)
qed

theorem missing_probabilities_coerced_witness:
  "absent (prob_real \<lparr>prob_real = Undefined, prob_fake = Undefined, verdict = Val ''fake'',
      iso_score = Val 0.5, similarity = Val 0.9, has_enrollment = Val True\<rparr>)
   \<and> absent (prob_fake \<lparr>prob_real = Undefined, prob_fake = Undefined, verdict = Val ''fake'',
      iso_score = Val 0.5, similarity = Val 0.9, has_enrollment = Val True\<rparr>)
   \<and> the_file (initial_state\<lparr>the_file := Some ''a.wav''\<rparr>) = Some ''a.wav''
   \<and> finalVerdict (initial_state\<lparr>the_file := Some ''a.wav''\<rparr>)
       \<lparr>prob_real = Undefined, prob_fake = Undefined, verdict = Val ''fake'',
        iso_score = Val 0.5, similarity = Val 0.9, has_enrollment = Val True\<rparr> = ''SUSPICIOUS''
   \<and> riskString (initial_state\<lparr>the_file := Some ''a.wav''\<rparr>)
       \<lparr>prob_real = Undefined, prob_fake = Undefined, verdict = Val ''fake'',
        iso_score = Val 0.5, similarity = Val 0.9, has_enrollment = Val True\<rparr> = ''High''
   \<and> snd (handleAnalyze (initial_state\<lparr>the_file := Some ''a.wav''\<rparr>)
       (Json \<lparr>prob_real = Undefined, prob_fake = Undefined, verdict = Val ''fake'',
        iso_score = Val 0.5, similarity = Val 0.9, has_enrollment = Val True\<rparr>)) = []"
  using missing_probabilities_coerced [of
      "\<lparr>prob_real = Undefined, prob_fake = Undefined, verdict = Val ''fake'',
        iso_score = Val 0.5, similarity = Val 0.9, has_enrollment = Val True\<rparr>"
      "initial_state\<lparr>the_file := Some ''a.wav''\<rparr>" "''a.wav''"]
  by (simp add: absent_def initial_state_def)


section \<open>The export\<close>

text \<open>
  C8. With an empty history \<^verbatim>\<open>handleDownloadHistory\<close> only alerts
  \<^verbatim>\<open>No history to download.\<close>: no file is downloaded, and the state is the one it
  started from.
\<close>

theorem empty_history_no_export:
  "history st = [] \<Longrightarrow> handleDownloadHistory st = (st, [Alert ''No history to download.''])"
  by (simp add: handleDownloadHistory_def)

theorem empty_history_no_export_witness:
  "history initial_state = []
   \<and> handleDownloadHistory initial_state = (initial_state, [Alert ''No history to download.''])"
  using empty_history_no_export [of initial_state]
  by (simp add: initial_state_def)

text \<open>
  C9, as the code has it. For a non-empty history whose probabilities are below \<open>10\<^sup>2\<^sup>1\<close>
  in magnitude, the downloaded text is the header line
  \<^verbatim>\<open>index,file,verdict,prob_real,prob_fake,risk\<close>, a line feed, and one line per row of
  the history joined by line feeds, in the order of the history (newest first, see
  \<open>handleAnalyze_prepends\<close>). Line \<open>k\<close> is the six cells of row \<open>k\<close> joined by commas;
  its index cell is the decimal numeral of the length minus \<open>k\<close>, so the first line
  carries the length and the last line 1; both probabilities are printed with exactly
  three decimal places.
\<close>

theorem export_format:
  assumes "history st \<noteq> []"
    and "\<forall>h\<in>set (history st). \<bar>h_probReal h\<bar> < 10 ^ 21 \<and> \<bar>h_probFake h\<bar> < 10 ^ 21"
  shows "\<exists>lines.
      handleDownloadHistory st =
        (st, [Download ''voice_auth_session_history.csv''
               (''index,file,verdict,prob_real,prob_fake,risk'' @ newline @ join newline lines)])
    \<and> length lines = length (history st)
    \<and> (\<forall>k<length (history st).
         lines ! k =
           dec (length (history st) - k) @ '','' @ h_file (history st ! k) @ '',''
           @ h_verdict (history st ! k) @ '','' @ toFixed (h_probReal (history st ! k)) 3
           @ '','' @ toFixed (h_probFake (history st ! k)) 3 @ '','' @ h_risk (history st ! k)
         \<and> undec (dec (length (history st) - k)) = length (history st) - k
         \<and> fixed_point 3 (toFixed (h_probReal (history st ! k)) 3)
         \<and> fixed_point 3 (toFixed (h_probFake (history st ! k)) 3))"
proof -
  define lines where "lines = map (\<lambda>r. join '','' r) (rows (history st))"
  have dl: "handleDownloadHistory st =
        (st, [Download ''voice_auth_session_history.csv''
               (''index,file,verdict,prob_real,prob_fake,risk'' @ newline @ join newline lines)])"
    using assms(1) by (simp add: handleDownloadHistory_def csv_shape lines_def)
  have len: "length lines = length (history st)"
    by (simp add: lines_def length_rows)
  have row: "lines ! k =
           dec (length (history st) - k) @ '','' @ h_file (history st ! k) @ '',''
           @ h_verdict (history st ! k) @ '','' @ toFixed (h_probReal (history st ! k)) 3
           @ '','' @ toFixed (h_probFake (history st ! k)) 3 @ '','' @ h_risk (history st ! k)"
    if "k < length (history st)" for k
    using that unfolding lines_def by (simp only: nth_map length_rows rows_nth join_row)
  have fp: "fixed_point 3 (toFixed (h_probReal (history st ! k)) 3)
         \<and> fixed_point 3 (toFixed (h_probFake (history st ! k)) 3)"
    if "k < length (history st)" for k
  proof -
    from that have "history st ! k \<in> set (history st)" by simp
    with assms(2) show ?thesis by (simp add: toFixed_fixed_point)
  qed
  show ?thesis
    using dl len row fp undec_dec by blast
qed

theorem export_format_witness:
  "history (initial_state\<lparr>history :=
       [\<lparr>h_file = ''b.wav'', h_verdict = ''REJECT'', h_probReal = 0.125, h_probFake = 0.875,
         h_risk = ''High''\<rparr>,
        \<lparr>h_file = ''a.wav'', h_verdict = ''ACCEPT'', h_probReal = 0.75, h_probFake = 0.25,
         h_risk = ''Low''\<rparr>]\<rparr>) \<noteq> []
   \<and> list_all (\<lambda>h. \<bar>h_probReal h\<bar> < 10 ^ 21 \<and> \<bar>h_probFake h\<bar> < 10 ^ 21)
       (history (initial_state\<lparr>history :=
       [\<lparr>h_file = ''b.wav'', h_verdict = ''REJECT'', h_probReal = 0.125, h_probFake = 0.875,
         h_risk = ''High''\<rparr>,
        \<lparr>h_file = ''a.wav'', h_verdict = ''ACCEPT'', h_probReal = 0.75, h_probFake = 0.25,
         h_risk = ''Low''\<rparr>]\<rparr>))
   \<and> (\<exists>lines. snd (handleDownloadHistory (initial_state\<lparr>history :=
       [\<lparr>h_file = ''b.wav'', h_verdict = ''REJECT'', h_probReal = 0.125, h_probFake = 0.875,
         h_risk = ''High''\<rparr>,
        \<lparr>h_file = ''a.wav'', h_verdict = ''ACCEPT'', h_probReal = 0.75, h_probFake = 0.25,
         h_risk = ''Low''\<rparr>]\<rparr>)) =
        [Download ''voice_auth_session_history.csv''
          (''index,file,verdict,prob_real,prob_fake,risk'' @ newline @ join newline lines)]
      \<and> lines = [''2,b.wav,REJECT,0.125,0.875,High'', ''1,a.wav,ACCEPT,0.750,0.250,Low''])"
proof -
  define hs where "hs =
       [\<lparr>h_file = ''b.wav'', h_verdict = ''REJECT'', h_probReal = 0.125, h_probFake = 0.875,
         h_risk = ''High''\<rparr>,
        \<lparr>h_file = ''a.wav'', h_verdict = ''ACCEPT'', h_probReal = 0.75, h_probFake = 0.25,
         h_risk = ''Low''\<rparr>]"
  define st where "st = initial_state\<lparr>history := hs\<rparr>"
  have hist: "history st = hs" by (simp add: st_def)
  have h1: "history st \<noteq> []" by (simp add: hist hs_def)
  have h2: "\<forall>h\<in>set (history st). \<bar>h_probReal h\<bar> < 10 ^ 21 \<and> \<bar>h_probFake h\<bar> < 10 ^ 21"
    by (simp add: hist hs_def)
  from export_format [OF h1 h2] obtain lines where
    dl: "handleDownloadHistory st =
        (st, [Download ''voice_auth_session_history.csv''
               (''index,file,verdict,prob_real,prob_fake,risk'' @ newline @ join newline lines)])"
    and len: "length lines = length (history st)"
    and row: "\<forall>k<length (history st).
         lines ! k =
           dec (length (history st) - k) @ '','' @ h_file (history st ! k) @ '',''
           @ h_verdict (history st ! k) @ '','' @ toFixed (h_probReal (history st ! k)) 3
           @ '','' @ toFixed (h_probFake (history st ! k)) 3 @ '','' @ h_risk (history st ! k)
         \<and> undec (dec (length (history st) - k)) = length (history st) - k
         \<and> fixed_point 3 (toFixed (h_probReal (history st ! k)) 3)
         \<and> fixed_point 3 (toFixed (h_probFake (history st ! k)) 3)"
    by (elim exE conjE)
  have l2: "length lines = 2" using len by (simp add: hist hs_def)
  have r0: "lines ! 0 = ''2,b.wav,REJECT,0.125,0.875,High''"
    using row [rule_format, of 0] by (simp add: hist hs_def toFixed_examples dec_examples)
  have r1: "lines ! 1 = ''1,a.wav,ACCEPT,0.750,0.250,Low''"
    using row [rule_format, of 1] by (simp add: hist hs_def toFixed_examples dec_examples)
  from l2 obtain a b where ab: "lines = [a, b]"
    by (auto simp add: numeral_2_eq_2 length_Suc_conv)
  from r0 r1
  have ll: "lines = [''2,b.wav,REJECT,0.125,0.875,High'', ''1,a.wav,ACCEPT,0.750,0.250,Low'']"
    unfolding ab by simp
  have out: "snd (handleDownloadHistory st) =
        [Download ''voice_auth_session_history.csv''
          (''index,file,verdict,prob_real,prob_fake,risk'' @ newline @ join newline
            [''2,b.wav,REJECT,0.125,0.875,High'', ''1,a.wav,ACCEPT,0.750,0.250,Low''])]"
    unfolding dl ll by simp
  show ?thesis
    unfolding hs_def [symmetric] st_def [symmetric]
  proof (intro conjI)
    show "history st \<noteq> []" by (rule h1)
    show "list_all (\<lambda>h. \<bar>h_probReal h\<bar> < 10 ^ 21 \<and> \<bar>h_probFake h\<bar> < 10 ^ 21) (history st)"
      using h2 by (simp only: list_all_iff)
    show "\<exists>lines. snd (handleDownloadHistory st) =
        [Download ''voice_auth_session_history.csv''
          (''index,file,verdict,prob_real,prob_fake,risk'' @ newline @ join newline lines)]
      \<and> lines = [''2,b.wav,REJECT,0.125,0.875,High'', ''1,a.wav,ACCEPT,0.750,0.250,Low'']"
      using out by simp
  qed
qed

text \<open>
  C9 as stated fails for a history that holds a probability of \<open>10\<^sup>2\<^sup>1\<close> or more, which
  \<^verbatim>\<open>handleAnalyze\<close> stores as it comes: after analysing \<^verbatim>\<open>a.wav\<close> with the response
  \<^verbatim>\<open>{prob_real: 1e21, prob_fake: 0, verdict: "real"}\<close> the export prints the real
  probability as \<^verbatim>\<open>1e+21\<close>, which has no decimal places.
\<close>

theorem export_exponent_notation:
  "snd (handleDownloadHistory (fst (handleAnalyze (initial_state\<lparr>the_file := Some ''a.wav''\<rparr>)
      (Json \<lparr>prob_real = Val 1000000000000000000000, prob_fake = Val 0, verdict = Val ''real'',
             iso_score = Null, similarity = Null, has_enrollment = Val False\<rparr>))))
   = [Download ''voice_auth_session_history.csv''
       (''index,file,verdict,prob_real,prob_fake,risk'' @ newline
        @ ''1,a.wav,ACCEPT,1e+21,0.000,Low'')]
   \<and> \<not> fixed_point 3 ''1e+21''"
proof -
  let ?d = "\<lparr>prob_real = Val 1000000000000000000000, prob_fake = Val 0, verdict = Val ''real'',
             iso_score = Null, similarity = Null, has_enrollment = Val False\<rparr>"
  let ?st = "initial_state\<lparr>the_file := Some ''a.wav''\<rparr>"
  have p: "probReal ?d = 1000000000000000000000" "probFake ?d = 0"
    by (simp_all add: probReal_def probFake_def nullish_def)
  have v: "finalVerdict ?st ?d = ''ACCEPT''"
    by (simp add: finalVerdict_def baseVerdict_def reasons_def p isoScore_def js_ops)
  have r: "riskString ?st ?d = ''Low''"
    by (simp add: riskString_def riskScore_def p isoScore_def js_ops)
  have h: "history (fst (handleAnalyze ?st (Json ?d))) =
      [\<lparr>h_file = ''a.wav'', h_verdict = ''ACCEPT'', h_probReal = 1000000000000000000000,
        h_probFake = 0, h_risk = ''Low''\<rparr>]"
    by (simp add: handleAnalyze_prepends p v r) (simp add: initial_state_def)
  have c: "csv [\<lparr>h_file = ''a.wav'', h_verdict = ''ACCEPT'',
        h_probReal = 1000000000000000000000, h_probFake = 0, h_risk = ''Low''\<rparr>]
      = ''index,file,verdict,prob_real,prob_fake,risk'' @ newline
        @ ''1,a.wav,ACCEPT,1e+21,0.000,Low''"
    by (simp add: csv_def rows_def header_def toFixed_examples dec_examples)
  have n: "\<not> fixed_point 3 ''1e+21''"
    by (simp add: fixed_point_def is_digit_def)
  show ?thesis
    using n by (simp add: handleDownloadHistory_def h c)
qed

end
